theory Spec2Isabelle
  imports Complex_Main "HOL-Library.Multiset" "HOL-Library.List_Lexorder"
begin

section \<open>Values of the source\<close>

text \<open>
  A Python \<open>str\<close> is a sequence of Unicode code points, and the string constants of
  \<open>app.py\<close> are Korean, so a string is a list of code points. Two strings are equal
  exactly when the lists are; \<open>sorted\<close> on strings is the lexicographic order of the
  code points.
\<close>

type_synonym pystr = "nat list"

text \<open>
  A pandas \<open>float64\<close> cell is either a number or \<open>NaN\<close>, which is also how pandas
  stores a missing value (\<open>pd.to_numeric(..., errors='coerce')\<close> in \<open>load_data\<close>).
  Numbers are taken as reals, so the arithmetic of this model is exact; infinities are
  not modelled. \<open>NaN\<close> propagates through arithmetic, every comparison with it is
  false, and \<open>Series.sum()\<close> skips it. The rounding of \<open>float64\<close> is modelled
  separately, in the section on \<open>float64\<close> evaluation below, for the property that
  depends on it.
\<close>

datatype pyfloat = Fl real | NaN

fun fmul :: "pyfloat \<Rightarrow> pyfloat \<Rightarrow> pyfloat" where
  "fmul (Fl a) (Fl b) = Fl (a * b)"
| "fmul _ _ = NaN"

fun fdiv_real :: "pyfloat \<Rightarrow> real \<Rightarrow> pyfloat" where
  "fdiv_real (Fl a) b = Fl (a / b)"
| "fdiv_real NaN b = NaN"

fun fillna :: "real \<Rightarrow> pyfloat \<Rightarrow> real" where
  "fillna d (Fl a) = a"
| "fillna d NaN = d"

text \<open>\<open>Series.sum()\<close> with its default \<open>skipna=True\<close>; the sum of no rows is 0.\<close>

definition nansum :: "pyfloat list \<Rightarrow> real" where
  "nansum xs = sum_list (map (fillna 0) xs)"

subsection \<open>String constants of \<open>app.py\<close>\<close>

text \<open>The calculation modes offered by the select box (default, no digital formula, digital full slot).\<close>

definition mode_default :: pystr where
  "mode_default = [44592, 48376]"

definition mode_no_digital_formula :: pystr where
  "mode_no_digital_formula = [46356, 51648, 53560, 32, 44277, 49885, 32, 48120, 51201, 50857]"

definition mode_digital_full_slot :: pystr where
  "mode_digital_full_slot = [46356, 51648, 53560, 32, 54400, 32, 44396, 51340]"

text \<open>Shelter type "tourist information panel", media types "poster" and "digital".\<close>

definition tourist_info_panel :: pystr where
  "tourist_info_panel = [44288, 44305, 50504, 45236, 54032]"

definition poster :: pystr where
  "poster = [54252, 49828, 53552]"

definition digital :: pystr where
  "digital = [46356, 51648, 53560]"

definition pkg_D :: pystr where
  "pkg_D = [68]"

definition pkg_P :: pystr where
  "pkg_P = [80]"

text \<open>The filter mode "package" and the five package names of \<open>region_pkg_weights\<close>.\<close>

definition filter_package :: pystr where
  "filter_package = [54056, 53412, 51648]"

definition filter_custom :: pystr where
  "filter_custom = [44288, 49900, 32, 47588, 52404]"

definition gangnam_D :: pystr where
  "gangnam_D = [44053, 45224, 68]"

definition seocho_D :: pystr where
  "seocho_D = [49436, 52488, 68]"

definition itaewon_D :: pystr where
  "itaewon_D = [51060, 53468, 50896, 68]"

definition jongno_D :: pystr where
  "jongno_D = [51333, 47196, 68]"

definition jongno_junggu_MD :: pystr where
  "jongno_junggu_MD = [51333, 47196, 51473, 44396, 77, 68]"

section \<open>Metric Adjuster: \<open>calculate_metrics_row\<close>\<close>

text \<open>
  One row of \<open>merged\<close>. \<open>rots\<close> and \<open>reach\<close> went through \<open>fillna(0)\<close> and are numbers;
  \<open>shelter_type\<close> and \<open>media_type\<close> went through \<open>astype(str)\<close> and are strings;
  \<open>package_type\<close> comes from a left merge and may be missing; \<open>stay_time\<close> and
  \<open>share_of_time\<close> come from a left merge of coerced numeric columns and may be \<open>NaN\<close>.
\<close>

record merged_row =
  ftr_idn :: pystr
  rots :: real
  reach :: real
  package_type :: "pystr option"
  shelter_type :: pystr
  media_type :: pystr
  stay_time :: pyfloat
  share_of_time :: pyfloat

text \<open>
  The function returns the pair \<open>(adj_rots, adj_reach)\<close>. The branches are in the order
  of the source. \<open>float(row['share_of_time'])\<close> of a missing cell is \<open>NaN\<close>, not an
  exception, and the products are evaluated left to right.
\<close>

definition calculate_metrics_row :: "pystr \<Rightarrow> merged_row \<Rightarrow> pyfloat \<times> pyfloat" where
  "calculate_metrics_row calc_mode row =
     (let k_rots = rots row; k_reach = reach row in
      if calc_mode = mode_no_digital_formula then (Fl k_rots, Fl k_reach)
      else if shelter_type row = tourist_info_panel \<and> media_type row = poster
        then (Fl (k_rots / 2), Fl (k_reach / 2))
      else if package_type row = Some pkg_D \<or> media_type row = digital then
        (case stay_time row of
           Fl st \<Rightarrow>
             (let share = (if calc_mode = mode_digital_full_slot then Fl (5 / 100)
                           else share_of_time row);
                  time_factor = (max (st - 1) 0 + 30) / 30
              in (fmul (fmul (Fl (time_factor * k_rots)) share) (Fl (1 / 2)),
                  fmul (fmul (Fl (time_factor * k_reach)) share) (Fl (1 / 2))))
         | NaN \<Rightarrow> (Fl k_rots, Fl k_reach))
      else (Fl k_rots, Fl k_reach))"

text \<open>The unit of the numeric scenario, with a shelter type that is not the tourist panel.\<close>

definition scenario_unit :: merged_row where
  "scenario_unit = \<lparr>ftr_idn = [49], rots = 1000, reach = 500, package_type = Some pkg_D,
     shelter_type = [], media_type = poster, stay_time = Fl 10, share_of_time = Fl (2 / 10)\<rparr>"

section \<open>Correction Factor Resolver\<close>

text \<open>Operations of the source that can raise are modelled with an error result.\<close>

datatype py_error = KeyError | IndexError | ZeroDivisionError

text \<open>\<open>d[k]\<close> on a dict written as an association list.\<close>

definition dict_getitem :: "(pystr \<times> real) list \<Rightarrow> pystr \<Rightarrow> py_error + real" where
  "dict_getitem d k = (case map_of d k of None \<Rightarrow> Inl KeyError | Some v \<Rightarrow> Inr v)"

text \<open>\<open>k in d\<close>.\<close>

definition dict_contains :: "(pystr \<times> real) list \<Rightarrow> pystr \<Rightarrow> bool" where
  "dict_contains d k = (k \<in> set (map fst d))"

text \<open>\<open>found_val.values[0]\<close>.\<close>

definition values0 :: "real list \<Rightarrow> py_error + real" where
  "values0 xs = (case xs of [] \<Rightarrow> Inl IndexError | x # _ \<Rightarrow> Inr x)"

definition region_pkg_weights :: "(pystr \<times> real) list" where
  "region_pkg_weights =
     [(gangnam_D, 5430 / 10000), (seocho_D, 7165 / 10000), (itaewon_D, 3311 / 10000),
      (jongno_D, 4892 / 10000), (jongno_junggu_MD, 5442 / 10000)]"

text \<open>One row of \<open>factor_df\<close>.\<close>

record factor_row =
  quantity :: int
  correction_factor :: real

text \<open>\<open>factor_df['quantity'].max()\<close>: \<open>NaN\<close> (here \<open>None\<close>) on a table without rows.\<close>

fun max_quantity :: "factor_row list \<Rightarrow> int option" where
  "max_quantity [] = None"
| "max_quantity (r # rs) = Some (fold max (map quantity rs) (quantity r))"

text \<open>
  \<open>min(count, max_qty)\<close>: Python's \<open>min\<close> keeps its first argument unless the second
  is smaller, so with \<open>max_qty = NaN\<close> it is \<open>count\<close>.
\<close>

definition lookup_qty :: "factor_row list \<Rightarrow> nat \<Rightarrow> int" where
  "lookup_qty tbl n = (case max_quantity tbl of None \<Rightarrow> int n | Some max_qty \<Rightarrow> min (int n) max_qty)"

text \<open>\<open>factor_df.loc[factor_df['quantity'] == lookup_qty, 'correction_factor']\<close>.\<close>

definition found_val :: "factor_row list \<Rightarrow> int \<Rightarrow> real list" where
  "found_val tbl q = map correction_factor (filter (\<lambda>r. quantity r = q) tbl)"

text \<open>
  The full-selection factor. \<open>factor_df\<close> is \<open>None\<close> when the tables failed to load.
  \<open>selected_package_option\<close> is only read when the filter mode is "package".
\<close>

definition correction_val ::
    "pystr \<Rightarrow> pystr \<Rightarrow> factor_row list option \<Rightarrow> nat \<Rightarrow> py_error + real" where
  "correction_val filter_mode selected_package_option factor_df total_shelters =
     (if total_shelters > 0 then
        (if filter_mode = filter_package \<and> dict_contains region_pkg_weights selected_package_option
         then dict_getitem region_pkg_weights selected_package_option
         else (case factor_df of
                 Some tbl \<Rightarrow>
                   (if found_val tbl (lookup_qty tbl total_shelters) \<noteq> []
                    then values0 (found_val tbl (lookup_qty tbl total_shelters))
                    else Inr 0)
               | None \<Rightarrow> Inr 0))
      else Inr 0)"

text \<open>The displayed-subset factor: the same code with its own dict and the truncated count.\<close>

definition region_pkg_weights_map :: "(pystr \<times> real) list" where
  "region_pkg_weights_map =
     [(gangnam_D, 5430 / 10000), (seocho_D, 7165 / 10000), (itaewon_D, 3311 / 10000),
      (jongno_D, 4892 / 10000), (jongno_junggu_MD, 5442 / 10000)]"

definition cur_correction ::
    "pystr \<Rightarrow> pystr \<Rightarrow> factor_row list option \<Rightarrow> nat \<Rightarrow> py_error + real" where
  "cur_correction filter_mode selected_package_option factor_df cur_count =
     (if cur_count > 0 then
        (if filter_mode = filter_package \<and> dict_contains region_pkg_weights_map selected_package_option
         then dict_getitem region_pkg_weights_map selected_package_option
         else (case factor_df of
                 Some tbl \<Rightarrow>
                   (if found_val tbl (lookup_qty tbl cur_count) \<noteq> []
                    then values0 (found_val tbl (lookup_qty tbl cur_count))
                    else Inr 0)
               | None \<Rightarrow> Inr 0))
      else Inr 0)"

text \<open>A small correction table with a gap at quantity 2.\<close>

definition example_table :: "factor_row list" where
  "example_table = [\<lparr>quantity = 1, correction_factor = 9 / 10\<rparr>,
                    \<lparr>quantity = 3, correction_factor = 7 / 10\<rparr>]"

section \<open>Aggregator: totals of the displayed subset\<close>

text \<open>True division; a zero divisor is the division fault.\<close>

definition py_truediv :: "real \<Rightarrow> real \<Rightarrow> py_error + real" where
  "py_truediv a b = (if b = 0 then Inl ZeroDivisionError else Inr (a / b))"

text \<open>\<open>freq = (cur_rots / final_cur_reach) if final_cur_reach > 0 else 0\<close>.\<close>

definition freq_metric :: "real \<Rightarrow> real \<Rightarrow> py_error + real" where
  "freq_metric rots_total reach_total =
     (if reach_total > 0 then py_truediv rots_total reach_total else Inr 0)"

text \<open>The five metrics shown above the dashboard.\<close>

record display_totals =
  t_count :: nat
  t_rots :: real
  t_reach :: real
  t_freq :: real
  t_correction :: real

text \<open>
  \<open>final_df\<close> is \<open>merged\<close> sorted and cut to the first \<open>top_n\<close> rows; its columns
  \<open>adj_rots\<close> and \<open>adj_reach\<close> are \<open>calculate_metrics_row\<close> of each row, so the displayed
  subset is given as a list of rows together with the calculation mode.
\<close>

definition adj_rots_col :: "pystr \<Rightarrow> merged_row list \<Rightarrow> pyfloat list" where
  "adj_rots_col calc_mode final_df = map (\<lambda>row. fst (calculate_metrics_row calc_mode row)) final_df"

definition adj_reach_col :: "pystr \<Rightarrow> merged_row list \<Rightarrow> pyfloat list" where
  "adj_reach_col calc_mode final_df = map (\<lambda>row. snd (calculate_metrics_row calc_mode row)) final_df"

definition displayed_totals ::
    "pystr \<Rightarrow> pystr \<Rightarrow> pystr \<Rightarrow> factor_row list option \<Rightarrow> merged_row list
      \<Rightarrow> py_error + display_totals" where
  "displayed_totals calc_mode filter_mode selected_package_option factor_df final_df =
     (let cur_count = length final_df;
          cur_rots = nansum (adj_rots_col calc_mode final_df);
          cur_reach = nansum (adj_reach_col calc_mode final_df)
      in case cur_correction filter_mode selected_package_option factor_df cur_count of
           Inl e \<Rightarrow> Inl e
         | Inr c \<Rightarrow>
             (let final_cur_reach = cur_reach * c
              in case freq_metric cur_rots final_cur_reach of
                   Inl e \<Rightarrow> Inl e
                 | Inr f \<Rightarrow> Inr \<lparr>t_count = cur_count, t_rots = cur_rots,
                     t_reach = final_cur_reach, t_freq = f, t_correction = c\<rparr>))"

section \<open>Demographic Allocator\<close>

text \<open>
  One row of \<open>demographics\<close>. \<open>d_rots\<close> and \<open>d_reach\<close> went through \<open>fillna(0)\<close>;
  gender and age are the grouping keys and are taken as present.
\<close>

record demo_row =
  d_month :: pystr
  d_ftr_idn :: pystr
  d_gender :: pystr
  d_age :: int
  d_rots :: real
  d_reach :: real

text \<open>The gender filter value "all"; the age filter value "all" is 0.\<close>

definition gender_all :: pystr where
  "gender_all = [51204, 52404]"

definition target_demo ::
    "demo_row list \<Rightarrow> pystr \<Rightarrow> pystr list \<Rightarrow> pystr \<Rightarrow> int \<Rightarrow> demo_row list" where
  "target_demo demographics selected_month final_selected_idns selected_gender selected_age_code =
     filter (\<lambda>d. d_month d = selected_month \<and> d_ftr_idn d \<in> set final_selected_idns \<and>
                 (selected_gender = gender_all \<or> d_gender d = selected_gender) \<and>
                 (selected_age_code = 0 \<or> d_age d = selected_age_code)) demographics"

text \<open>\<open>np.where(final_df['reach'] > 0, final_df['adj_reach'] / final_df['reach'], 1.0)\<close>.\<close>

definition calc_ratio :: "pystr \<Rightarrow> merged_row \<Rightarrow> pyfloat" where
  "calc_ratio calc_mode row =
     (if reach row > 0 then fdiv_real (snd (calculate_metrics_row calc_mode row)) (reach row)
      else Fl 1)"

definition ratio_map :: "pystr \<Rightarrow> merged_row list \<Rightarrow> (pystr \<times> pyfloat) list" where
  "ratio_map calc_mode final_df = map (\<lambda>row. (ftr_idn row, calc_ratio calc_mode row)) final_df"

text \<open>
  \<open>target_demo.join(ratio_map, on='ftr_idn')\<close> is a left join: a demographic row without
  a unit in \<open>ratio_map\<close> keeps one row with a missing ratio, a row with matches gets one
  row per match.
\<close>

definition join_ratio :: "(pystr \<times> pyfloat) list \<Rightarrow> demo_row \<Rightarrow> (demo_row \<times> pyfloat) list" where
  "join_ratio rm d =
     (case filter (\<lambda>kv. fst kv = d_ftr_idn d) rm of
        [] \<Rightarrow> [(d, NaN)]
      | m # ms \<Rightarrow> map (\<lambda>kv. (d, snd kv)) (m # ms))"

text \<open>The join followed by \<open>fillna(1.0)\<close> on the ratio.\<close>

definition joined_demo :: "(pystr \<times> pyfloat) list \<Rightarrow> demo_row list \<Rightarrow> (demo_row \<times> real) list" where
  "joined_demo rm td = map (\<lambda>dr. (fst dr, fillna 1 (snd dr))) (concat (map (join_ratio rm) td))"

definition adj_demo_rots :: "demo_row \<times> real \<Rightarrow> real" where
  "adj_demo_rots dr = d_rots (fst dr) * snd dr"

definition adj_demo_reach :: "demo_row \<times> real \<Rightarrow> real" where
  "adj_demo_reach dr = d_reach (fst dr) * snd dr"

text \<open>
  \<open>groupby(key)[[...]].sum().reset_index()\<close>: one row per key present, keys in sorted
  order, with the sums of the two adjusted columns.
\<close>

definition groupby_sum ::
    "(demo_row \<times> real \<Rightarrow> 'k::linorder) \<Rightarrow> (demo_row \<times> real) list \<Rightarrow> ('k \<times> real \<times> real) list" where
  "groupby_sum key rows =
     map (\<lambda>g. (g, sum_list (map adj_demo_rots (filter (\<lambda>r. key r = g) rows)),
                   sum_list (map adj_demo_reach (filter (\<lambda>r. key r = g) rows))))
         (sort (remdups (map key rows)))"

text \<open>\<open>summ['adj_demo_reach'] = summ['adj_demo_reach'] * cur_correction\<close>.\<close>

definition apply_correction :: "real \<Rightarrow> ('k \<times> real \<times> real) list \<Rightarrow> ('k \<times> real \<times> real) list" where
  "apply_correction c summ = map (\<lambda>(g, r, k). (g, r, k * c)) summ"

text \<open>
  The gender and age summaries of the second tab, \<open>None\<close> when the tab shows a message
  instead (no demographics table, or no demographic row in scope).
\<close>

definition demographic_summary ::
    "pystr \<Rightarrow> merged_row list \<Rightarrow> real \<Rightarrow> demo_row list option \<Rightarrow> pystr \<Rightarrow> pystr list \<Rightarrow> pystr \<Rightarrow> int
      \<Rightarrow> ((pystr \<times> real \<times> real) list \<times> (int \<times> real \<times> real) list) option" where
  "demographic_summary calc_mode final_df c demographics selected_month final_selected_idns
       selected_gender selected_age_code =
     (case demographics of
        None \<Rightarrow> None
      | Some demo \<Rightarrow>
          (if demo = [] then None
           else
             (let td = target_demo demo selected_month final_selected_idns
                         selected_gender selected_age_code
              in if td = [] then None
                 else
                   (let rows = joined_demo (ratio_map calc_mode final_df) td;
                        gender_summ = groupby_sum (\<lambda>r. d_gender (fst r)) rows;
                        age_summ = groupby_sum (\<lambda>r. d_age (fst r)) rows
                    in Some (apply_correction c gender_summ, apply_correction c age_summ)))))"

text \<open>The reach column of a summary.\<close>

definition summ_reach :: "('k \<times> real \<times> real) list \<Rightarrow> real list" where
  "summ_reach summ = map (\<lambda>(g, r, k). k) summ"

text \<open>Two demographic rows of the scenario unit, for one month.\<close>

definition example_month :: pystr where
  "example_month = [50, 48, 50, 52, 48, 49]"

definition example_demo :: "demo_row list" where
  "example_demo =
     [\<lparr>d_month = example_month, d_ftr_idn = [49], d_gender = [77], d_age = 2,
        d_rots = 600, d_reach = 300\<rparr>,
      \<lparr>d_month = example_month, d_ftr_idn = [49], d_gender = [70], d_age = 3,
        d_rots = 400, d_reach = 200\<rparr>]"

section \<open>The Metric Adjuster in \<open>float64\<close>\<close>

text \<open>
  Every arithmetic result of the source is a \<open>float64\<close>: the exact result rounded to a
  significand of 53 bits, to nearest, ties to even. \<open>f64\<close> is that rounding on the
  reals. The exponent range is not bounded here, so overflow and subnormal numbers are not
  modelled; the values below are far from both.
\<close>

text \<open>The number of binary digits of a natural number.\<close>

fun bit_length :: "nat \<Rightarrow> nat" where
  "bit_length n = (if n = 0 then 0 else Suc (bit_length (n div 2)))"

declare bit_length.simps [simp del]

text \<open>Rounding to the nearest integer, a tie going to the even one.\<close>

definition round_half_even :: "real \<Rightarrow> int" where
  "round_half_even y =
     (let f = \<lfloor>y\<rfloor>; d = y - of_int f
      in if d < 1 / 2 then f else if 1 / 2 < d then f + 1 else if even f then f else f + 1)"

text \<open>\<open>x\<close> times 2 to the power \<open>e\<close>.\<close>

definition scale2 :: "real \<Rightarrow> int \<Rightarrow> real" where
  "scale2 x e = (if 0 \<le> e then x * 2 ^ nat e else x / 2 ^ nat (- e))"

text \<open>The binary exponent of a number other than 0: the \<open>e\<close> with \<open>2 ^ e \<le> |x| < 2 ^ (e + 1)\<close>.\<close>

definition f64_exp :: "real \<Rightarrow> int" where
  "f64_exp x =
     (if 1 \<le> \<bar>x\<bar> then int (bit_length (nat \<lfloor>\<bar>x\<bar>\<rfloor>)) - 1
      else - int (bit_length (nat \<lceil>1 / \<bar>x\<bar>\<rceil> - 1)))"

definition f64 :: "real \<Rightarrow> real" where
  "f64 x =
     (if x = 0 then 0
      else (let e = f64_exp x - 52
            in scale2 (of_int (round_half_even (scale2 x (- e)))) e))"




text \<open>The unit of the numeric scenario with its share of time missing.\<close>

definition nan_unit :: merged_row where
  "nan_unit = scenario_unit\<lparr>share_of_time := NaN\<rparr>"

lemmas str_defs = mode_default_def mode_no_digital_formula_def mode_digital_full_slot_def
  tourist_info_panel_def poster_def digital_def pkg_D_def pkg_P_def

lemmas f64_eval = f64_def f64_exp_def round_half_even_def scale2_def Let_def

section \<open>Properties of the Metric Adjuster\<close>

text \<open>
  C4. A row whose shelter type is the tourist information panel and whose media type is
  poster gets both raw values halved in every mode other than "no digital formula",
  whatever its package type, stay time and share of time: the branch comes before the
  digital formula.
\<close>

theorem tourist_panel_halved:
  assumes "calc_mode \<noteq> mode_no_digital_formula"
    and "shelter_type row = tourist_info_panel"
    and "media_type row = poster"
  shows "calculate_metrics_row calc_mode row = (Fl (rots row / 2), Fl (reach row / 2))"
  using assms by (simp add: calculate_metrics_row_def)

theorem tourist_panel_halved_witness:
  "calculate_metrics_row mode_digital_full_slot
     (scenario_unit\<lparr>shelter_type := tourist_info_panel\<rparr>) = (Fl 500, Fl 250)"
  using tourist_panel_halved [of mode_digital_full_slot
      "scenario_unit\<lparr>shelter_type := tourist_info_panel\<rparr>"]
  by (simp add: scenario_unit_def str_defs)

text \<open>
  C9. The numeric scenario: a row with raw ROTS 1000, raw Reach 500, stay time 10, share
  of time 0.2 and package type D that is not a tourist-panel poster. In the default mode
  the time factor is (9 + 30) / 30 = 1.3 and the adjusted pair is (130, 65); in the
  full-slot mode the share is 0.05 and the pair is (32.5, 16.25).
\<close>

theorem scenario_digital_formula:
  assumes "rots row = 1000" and "reach row = 500"
    and "stay_time row = Fl 10" and "share_of_time row = Fl (2 / 10)"
    and "package_type row = Some pkg_D"
    and "\<not> (shelter_type row = tourist_info_panel \<and> media_type row = poster)"
  shows "calculate_metrics_row mode_default row = (Fl 130, Fl 65) \<and>
         calculate_metrics_row mode_digital_full_slot row = (Fl (65 / 2), Fl (65 / 4)) \<and>
         (max (10 - 1) 0 + 30) / 30 = (13 / 10 :: real)"
proof -
  have modes: "mode_default \<noteq> mode_no_digital_formula"
    "mode_digital_full_slot \<noteq> mode_no_digital_formula"
    "mode_default \<noteq> mode_digital_full_slot"
    by (simp_all add: str_defs)
  have "calculate_metrics_row mode_default row = (Fl 130, Fl 65)"
    using assms modes by (auto simp add: calculate_metrics_row_def)
  moreover have "calculate_metrics_row mode_digital_full_slot row = (Fl (65 / 2), Fl (65 / 4))"
    using assms modes by (auto simp add: calculate_metrics_row_def)
  ultimately show ?thesis by simp
qed

theorem scenario_digital_formula_witness:
  "calculate_metrics_row mode_default scenario_unit = (Fl 130, Fl 65) \<and>
   calculate_metrics_row mode_digital_full_slot scenario_unit = (Fl (65 / 2), Fl (65 / 4))"
  using scenario_digital_formula [of scenario_unit]
  by (simp add: scenario_unit_def str_defs)

text \<open>
  C10. In the full-slot mode the share of time of the row is never read: replacing it by
  any other value, a missing one included, leaves the adjusted pair unchanged.
\<close>

theorem full_slot_ignores_share_of_time:
  "calculate_metrics_row mode_digital_full_slot (row\<lparr>share_of_time := s\<rparr>) =
   calculate_metrics_row mode_digital_full_slot row"
  by (simp add: calculate_metrics_row_def Let_def)



lemma bit_length_numeral [simp]:
  "bit_length (numeral k) = Suc (bit_length (numeral k div 2))"
  by (subst bit_length.simps) simp

lemma bit_length_0 [simp]: "bit_length 0 = 0"
  by (subst bit_length.simps) simp

lemma bit_length_1 [simp]: "bit_length (Suc 0) = Suc 0"
  by (subst bit_length.simps) simp

lemma f64_representable:
  "f64 1000 = 1000" "f64 3 = 3" "f64 (1 / 2) = 1 / 2"
  "f64 (2 / 10) = 3602879701896397 / 18014398509481984"
  by (simp_all add: f64_eval)





text \<open>
  C2. The row of the numeric scenario with its share of time missing, in the default mode:
  the digital formula is used all the same and both adjusted values are \<open>NaN\<close>; the raw
  pair (1000, 500) is not returned.
\<close>

theorem missing_share_of_time_gives_nan:
  "calculate_metrics_row mode_default (scenario_unit\<lparr>share_of_time := NaN\<rparr>) = (NaN, NaN) \<and>
   calculate_metrics_row mode_default (scenario_unit\<lparr>share_of_time := NaN\<rparr>)
     \<noteq> (Fl (rots scenario_unit), Fl (reach scenario_unit))"
  by (simp add: calculate_metrics_row_def scenario_unit_def str_defs)

section \<open>Properties of the Correction Factor Resolver\<close>


lemma fold_max_Max: "fold max xs (a::int) = Max (insert a (set xs))"
proof (induction xs arbitrary: a)
  case Nil
  then show ?case by simp
next
  case (Cons x xs)
  have "Max (insert (max x a) (set xs)) = Max (insert a (insert x (set xs)))"
  proof (cases "set xs = {}")
    case True
    then show ?thesis by (simp add: max.commute)
  next
    case False
    then show ?thesis by (simp add: max.assoc max.commute max.left_commute)
  qed
  with Cons show ?case by simp
qed

lemma max_quantity_Max:
  "tbl \<noteq> [] \<Longrightarrow> max_quantity tbl = Some (Max (quantity ` set tbl))"
  by (cases tbl) (simp_all add: fold_max_Max)

lemma found_val_empty_iff:
  "found_val tbl q = [] \<longleftrightarrow> (\<forall>r \<in> set tbl. quantity r \<noteq> q)"
  by (simp add: found_val_def filter_empty_conv)

lemma values0_found_val:
  "List.find (\<lambda>r. quantity r = q) tbl = Some r \<Longrightarrow>
   values0 (found_val tbl q) = Inr (correction_factor r)"
  by (induction tbl) (auto simp add: found_val_def values0_def split: if_splits)

lemma dict_getitem_contains:
  "dict_contains d k \<Longrightarrow> \<exists>w. dict_getitem d k = Inr w"
proof -
  assume "dict_contains d k"
  then have "map_of d k \<noteq> None"
    by (simp add: dict_contains_def map_of_eq_None_iff)
  then show ?thesis
    by (auto simp add: dict_getitem_def)
qed

lemma values0_nonempty: "xs \<noteq> [] \<Longrightarrow> \<exists>v. values0 xs = Inr v"
  by (cases xs) (simp_all add: values0_def)

lemma correction_val_no_error: "\<exists>v. correction_val fm opt df n = Inr v"
proof (cases "0 < n \<and> fm = filter_package \<and> dict_contains region_pkg_weights opt")
  case True
  then show ?thesis
    using dict_getitem_contains [of region_pkg_weights opt]
    by (simp add: correction_val_def)
next
  case False
  then show ?thesis
    using values0_nonempty
    by (cases df) (auto simp add: correction_val_def)
qed

lemma cur_correction_no_error: "\<exists>v. cur_correction fm opt df n = Inr v"
proof (cases "0 < n \<and> fm = filter_package \<and> dict_contains region_pkg_weights_map opt")
  case True
  then show ?thesis
    using dict_getitem_contains [of region_pkg_weights_map opt]
    by (simp add: cur_correction_def)
next
  case False
  then show ?thesis
    using values0_nonempty
    by (cases df) (auto simp add: cur_correction_def)
qed


lemma weights_map_eq: "region_pkg_weights_map = region_pkg_weights"
  by (simp add: region_pkg_weights_map_def region_pkg_weights_def)

lemma pkg_names_distinct: "distinct (map fst region_pkg_weights)"
  by (simp add: region_pkg_weights_def gangnam_D_def seocho_D_def itaewon_D_def jongno_D_def
      jongno_junggu_MD_def)

lemma dict_getitem_member:
  "(k, w) \<in> set region_pkg_weights \<Longrightarrow>
   dict_contains region_pkg_weights k \<and> dict_getitem region_pkg_weights k = Inr w"
  using pkg_names_distinct
  by (force simp add: dict_contains_def dict_getitem_def)

text \<open>
  C5. When the filter mode is "package" and the selected package name is a key of the
  named weights, the resolver returns the weight stored for that name for every selection
  size it can receive (the sizes greater than 0), whatever the correction table holds,
  also when the table has a row for that size; this holds for the full-selection factor
  and for the displayed-subset factor.
\<close>

theorem named_package_override:
  assumes "0 < n" and "(name, w) \<in> set region_pkg_weights"
  shows "correction_val filter_package name factor_df n = Inr w \<and>
         cur_correction filter_package name factor_df n = Inr w"
  using assms dict_getitem_member [of name w]
  by (simp add: correction_val_def cur_correction_def weights_map_eq)

theorem named_package_override_witness:
  "correction_val filter_package gangnam_D (Some example_table) 3 = Inr (5430 / 10000) \<and>
   cur_correction filter_package gangnam_D (Some example_table) 3 = Inr (5430 / 10000)"
  using named_package_override [of 3 gangnam_D "5430 / 10000" "Some example_table"]
  by (simp add: region_pkg_weights_def)

text \<open>
  C6. With no named-package override, a table of non-negative quantities and a selection
  size above the largest quantity of the table, the lookup quantity is that largest
  quantity and the resolved factor is the factor of the first row that has it.
\<close>

theorem correction_capped:
  assumes "\<not> (filter_mode = filter_package \<and> dict_contains region_pkg_weights name)"
    and "tbl \<noteq> []"
    and "\<forall>r \<in> set tbl. 0 \<le> quantity r"
    and "Max (quantity ` set tbl) < int n"
  shows "\<exists>r. List.find (\<lambda>r. quantity r = Max (quantity ` set tbl)) tbl = Some r \<and>
             lookup_qty tbl n = Max (quantity ` set tbl) \<and>
             correction_val filter_mode name (Some tbl) n = Inr (correction_factor r) \<and>
             cur_correction filter_mode name (Some tbl) n = Inr (correction_factor r)"
proof -
  define m where "m = Max (quantity ` set tbl)"
  have fin: "finite (quantity ` set tbl)" and ne: "quantity ` set tbl \<noteq> {}"
    using assms(2) by simp_all
  have "m \<in> quantity ` set tbl"
    unfolding m_def using fin ne by (rule Max_in)
  then obtain r0 where r0: "r0 \<in> set tbl" "quantity r0 = m" by auto
  then have "0 \<le> m" using assms(3) by auto
  with assms(4) have npos: "0 < n" by (simp add: m_def)
  have lq: "lookup_qty tbl n = m"
    using assms(4) max_quantity_Max [OF assms(2)] by (simp add: lookup_qty_def m_def)
  from r0 obtain r where r: "List.find (\<lambda>r. quantity r = m) tbl = Some r"
    by (cases "List.find (\<lambda>r. quantity r = m) tbl") (auto simp add: find_None_iff)
  have v: "values0 (found_val tbl m) = Inr (correction_factor r)"
    using r by (rule values0_found_val)
  have nonempty: "found_val tbl m \<noteq> []"
    using r0 by (auto simp add: found_val_empty_iff)
  have "correction_val filter_mode name (Some tbl) n = Inr (correction_factor r)"
    using assms(1) npos lq v nonempty by (auto simp add: correction_val_def)
  moreover have "cur_correction filter_mode name (Some tbl) n = Inr (correction_factor r)"
    using assms(1) npos lq v nonempty by (auto simp add: cur_correction_def weights_map_eq)
  ultimately show ?thesis
    using r lq unfolding m_def by blast
qed

theorem correction_capped_witness:
  "lookup_qty example_table 5 = 3 \<and>
   correction_val filter_custom gangnam_D (Some example_table) 5 = Inr (7 / 10) \<and>
   cur_correction filter_custom gangnam_D (Some example_table) 5 = Inr (7 / 10)"
  using correction_capped [of filter_custom gangnam_D example_table 5]
  by (simp add: example_table_def filter_custom_def filter_package_def)

text \<open>
  C7. For selection size 0 the resolver returns 0; with no named-package override, when no
  row of the table has the capped lookup quantity, it returns 0; and it returns a number,
  never an error, on every input.
\<close>

theorem correction_zero_cases:
  "correction_val filter_mode name factor_df 0 = Inr 0 \<and>
   cur_correction filter_mode name factor_df 0 = Inr 0 \<and>
   (\<not> (filter_mode = filter_package \<and> dict_contains region_pkg_weights name) \<and>
    (\<forall>r \<in> set tbl. quantity r \<noteq> lookup_qty tbl n) \<longrightarrow>
      correction_val filter_mode name (Some tbl) n = Inr 0 \<and>
      cur_correction filter_mode name (Some tbl) n = Inr 0) \<and>
   (\<exists>v. correction_val filter_mode name factor_df n = Inr v) \<and>
   (\<exists>v. cur_correction filter_mode name factor_df n = Inr v)"
proof -
  have zero: "correction_val filter_mode name factor_df 0 = Inr 0"
    "cur_correction filter_mode name factor_df 0 = Inr 0"
    by (simp_all add: correction_val_def cur_correction_def)
  have gap: "correction_val filter_mode name (Some tbl) n = Inr 0 \<and>
      cur_correction filter_mode name (Some tbl) n = Inr 0"
    if "\<not> (filter_mode = filter_package \<and> dict_contains region_pkg_weights name)"
      and "\<forall>r \<in> set tbl. quantity r \<noteq> lookup_qty tbl n"
  proof -
    from that(2) have "found_val tbl (lookup_qty tbl n) = []"
      by (simp add: found_val_empty_iff)
    with that(1) show ?thesis
      by (auto simp add: correction_val_def cur_correction_def weights_map_eq)
  qed
  show ?thesis
    using zero gap correction_val_no_error cur_correction_no_error by blast
qed

theorem correction_zero_cases_witness:
  "lookup_qty example_table 2 = 2 \<and>
   correction_val filter_custom gangnam_D (Some example_table) 2 = Inr 0 \<and>
   cur_correction filter_custom gangnam_D (Some example_table) 2 = Inr 0 \<and>
   correction_val filter_package gangnam_D None 0 = Inr 0"
  using correction_zero_cases [of filter_custom gangnam_D "Some example_table" example_table 2]
    correction_zero_cases [of filter_package gangnam_D None example_table 2]
  by (simp add: example_table_def filter_custom_def filter_package_def lookup_qty_def)

section \<open>Properties of the Aggregator\<close>


lemma freq_metric_value: "freq_metric r f = Inr (if f > 0 then r / f else 0)"
  by (simp add: freq_metric_def py_truediv_def)

lemma displayed_totals_value:
  assumes "cur_correction fm name df (length final_df) = Inr c"
  shows "displayed_totals calc_mode fm name df final_df =
     Inr \<lparr>t_count = length final_df,
          t_rots = nansum (adj_rots_col calc_mode final_df),
          t_reach = nansum (adj_reach_col calc_mode final_df) * c,
          t_freq = (if nansum (adj_reach_col calc_mode final_df) * c > 0
                    then nansum (adj_rots_col calc_mode final_df) /
                         (nansum (adj_reach_col calc_mode final_df) * c)
                    else 0),
          t_correction = c\<rparr>"
  using assms by (simp add: displayed_totals_def Let_def freq_metric_value)

text \<open>
  C8. The frequency is total ROTS / total Reach when the total Reach is positive and 0
  otherwise, so the division is never reached with a zero divisor: the totals of the
  displayed subset are computed without error for every input, and for an empty subset
  the correction factor, the total Reach and the frequency are all 0.
\<close>

theorem frequency_guarded:
  "freq_metric r f = Inr (if f > 0 then r / f else 0) \<and>
   (\<exists>t. displayed_totals calc_mode fm name df final_df = Inr t \<and>
        t_freq t = (if t_reach t > 0 then t_rots t / t_reach t else 0)) \<and>
   displayed_totals calc_mode fm name df [] =
     Inr \<lparr>t_count = 0, t_rots = 0, t_reach = 0, t_freq = 0, t_correction = 0\<rparr>"
proof -
  obtain c where c: "cur_correction fm name df (length final_df) = Inr c"
    using cur_correction_no_error by blast
  have "\<exists>t. displayed_totals calc_mode fm name df final_df = Inr t \<and>
        t_freq t = (if t_reach t > 0 then t_rots t / t_reach t else 0)"
    using displayed_totals_value [OF c, of calc_mode] by simp
  moreover have "cur_correction fm name df (length ([] :: merged_row list)) = Inr 0"
    by (simp add: cur_correction_def)
  then have "displayed_totals calc_mode fm name df [] =
     Inr \<lparr>t_count = 0, t_rots = 0, t_reach = 0, t_freq = 0, t_correction = 0\<rparr>"
    using displayed_totals_value [of fm name df "[]" 0 calc_mode]
    by (simp add: nansum_def adj_rots_col_def adj_reach_col_def)
  ultimately show ?thesis
    using freq_metric_value by blast
qed

theorem frequency_guarded_witness:
  "freq_metric 130 (585 / 10) = Inr (1300 / 585) \<and> freq_metric 130 0 = Inr 0 \<and>
   displayed_totals mode_default filter_custom [] None [] =
     Inr \<lparr>t_count = 0, t_rots = 0, t_reach = 0, t_freq = 0, t_correction = 0\<rparr>"
  using frequency_guarded [of 130 "585 / 10" mode_default filter_custom "[]" None "[]"]
    frequency_guarded [of 130 0 mode_default filter_custom "[]" None "[]"]
  by simp

section \<open>Properties of the Demographic Allocator\<close>

lemma adj_reach_zero:
  "reach row = 0 \<Longrightarrow> fillna 0 (snd (calculate_metrics_row m row)) = 0"
  by (cases "share_of_time row")
    (auto simp add: calculate_metrics_row_def Let_def split: pyfloat.splits)

lemma ratio_times_reach:
  assumes "0 \<le> reach u" and "0 < reach u \<Longrightarrow> calc_ratio m u \<noteq> NaN"
  shows "fillna 1 (calc_ratio m u) * reach u = fillna 0 (snd (calculate_metrics_row m u))"
proof (cases "0 < reach u")
  case True
  with assms(2) have "calc_ratio m u \<noteq> NaN" by simp
  with True show ?thesis
    by (cases "snd (calculate_metrics_row m u)") (simp_all add: calc_ratio_def)
next
  case False
  with assms(1) have "reach u = 0" by simp
  then show ?thesis
    by (simp add: adj_reach_zero)
qed

lemma sum_list_swap:
  fixes f :: "'a \<Rightarrow> 'b \<Rightarrow> real"
  shows "sum_list (map (\<lambda>x. sum_list (map (f x) ys)) xs) =
         sum_list (map (\<lambda>y. sum_list (map (\<lambda>x. f x y) xs)) ys)"
  by (induction xs) (simp_all add: sum_list_addf)

lemma sum_over_keys:
  fixes v :: "'r \<Rightarrow> real"
  assumes "finite S" and "key ` set rows \<subseteq> S"
  shows "sum (\<lambda>g. sum_list (map v (filter (\<lambda>r. key r = g) rows))) S = sum_list (map v rows)"
  using assms(2)
proof (induction rows)
  case Nil
  then show ?case by simp
next
  case (Cons x xs)
  then have xS: "key x \<in> S" and sub: "key ` set xs \<subseteq> S" by auto
  have "sum (\<lambda>g. sum_list (map v (filter (\<lambda>r. key r = g) (x # xs)))) S =
        sum (\<lambda>g. (if g = key x then v x else 0) +
                  sum_list (map v (filter (\<lambda>r. key r = g) xs))) S"
    by (rule sum.cong) auto
  also have "\<dots> = sum (\<lambda>g. if g = key x then v x else 0) S +
        sum (\<lambda>g. sum_list (map v (filter (\<lambda>r. key r = g) xs))) S"
    by (rule sum.distrib)
  also have "sum (\<lambda>g. if g = key x then v x else 0) S = v x"
    using assms(1) xS by simp
  finally show ?case
    using Cons.IH [OF sub] by simp
qed

lemma sum_groups:
  fixes v :: "'r \<Rightarrow> real" and key :: "'r \<Rightarrow> 'k::linorder"
  shows "sum_list (map (\<lambda>g. sum_list (map v (filter (\<lambda>r. key r = g) rows)))
           (sort (remdups (map key rows)))) = sum_list (map v rows)"
proof -
  have "distinct (sort (remdups (map key rows)))" by simp
  then have "sum_list (map (\<lambda>g. sum_list (map v (filter (\<lambda>r. key r = g) rows)))
           (sort (remdups (map key rows)))) =
        sum (\<lambda>g. sum_list (map v (filter (\<lambda>r. key r = g) rows)))
           (set (sort (remdups (map key rows))))"
    by (rule sum_list_distinct_conv_sum_set)
  also have "\<dots> = sum_list (map v rows)"
    by (rule sum_over_keys) simp_all
  finally show ?thesis .
qed

lemma summ_reach_total:
  fixes key :: "demo_row \<times> real \<Rightarrow> 'k::linorder"
  shows "sum_list (summ_reach (apply_correction c (groupby_sum key rows))) =
         sum_list (map adj_demo_reach rows) * c"
proof -
  have "summ_reach (apply_correction c (groupby_sum key rows)) =
      map (\<lambda>g. sum_list (map adj_demo_reach (filter (\<lambda>r. key r = g) rows)) * c)
        (sort (remdups (map key rows)))"
    by (simp add: summ_reach_def apply_correction_def groupby_sum_def comp_def)
  then have "sum_list (summ_reach (apply_correction c (groupby_sum key rows))) =
      sum_list (map (\<lambda>g. sum_list (map adj_demo_reach (filter (\<lambda>r. key r = g) rows)))
        (sort (remdups (map key rows)))) * c"
    by (simp add: sum_list_mult_const)
  then show ?thesis
    by (simp add: sum_groups)
qed

lemma join_ratio_sum:
  assumes "\<forall>jr \<in> set (join_ratio rm d). snd jr \<noteq> NaN"
  shows "sum_list (map (\<lambda>jr. d_reach (fst jr) * fillna 1 (snd jr)) (join_ratio rm d)) =
         sum_list (map (\<lambda>kv. if fst kv = d_ftr_idn d then d_reach d * fillna 1 (snd kv) else 0) rm)"
proof (cases "filter (\<lambda>kv. fst kv = d_ftr_idn d) rm")
  case Nil
  with assms show ?thesis by (simp add: join_ratio_def)
next
  case (Cons m ms)
  then have "join_ratio rm d = map (\<lambda>kv. (d, snd kv)) (filter (\<lambda>kv. fst kv = d_ftr_idn d) rm)"
    by (simp add: join_ratio_def)
  then show ?thesis
    by (simp add: comp_def sum_list_map_filter')
qed

lemma joined_demo_sum:
  "sum_list (map adj_demo_reach (joined_demo rm td)) =
   sum_list (map (\<lambda>d. sum_list (map (\<lambda>jr. d_reach (fst jr) * fillna 1 (snd jr))
                                   (join_ratio rm d))) td)"
  by (induction td) (simp_all add: joined_demo_def adj_demo_reach_def comp_def)

lemma matched_ratio_present:
  assumes "\<forall>jr \<in> set (join_ratio (ratio_map m final_df) d). snd jr \<noteq> NaN"
    and "u \<in> set final_df" and "d_ftr_idn d = ftr_idn u"
  shows "calc_ratio m u \<noteq> NaN"
proof -
  let ?ms = "filter (\<lambda>kv. fst kv = d_ftr_idn d) (ratio_map m final_df)"
  have mem: "(ftr_idn u, calc_ratio m u) \<in> set ?ms"
    using assms(2,3) by (auto simp add: ratio_map_def)
  then have "?ms \<noteq> []" by (metis empty_iff empty_set)
  then have "join_ratio (ratio_map m final_df) d = map (\<lambda>kv. (d, snd kv)) ?ms"
    by (cases ?ms) (simp_all add: join_ratio_def)
  with mem have "(d, calc_ratio m u) \<in> set (join_ratio (ratio_map m final_df) d)"
    by force
  with assms(1) show ?thesis by force
qed

lemma allocated_reach_total:
  assumes H1: "\<forall>d \<in> set td. \<forall>jr \<in> set (join_ratio (ratio_map m final_df) d). snd jr \<noteq> NaN"
    and H2: "\<forall>u \<in> set final_df.
               sum_list (map d_reach (filter (\<lambda>d. d_ftr_idn d = ftr_idn u) td)) = reach u"
    and H3: "\<forall>u \<in> set final_df. 0 \<le> reach u"
  shows "sum_list (map adj_demo_reach (joined_demo (ratio_map m final_df) td)) =
         nansum (adj_reach_col m final_df)"
proof -
  let ?R = "\<lambda>u. fillna 1 (calc_ratio m u)"
  have "sum_list (map adj_demo_reach (joined_demo (ratio_map m final_df) td)) =
      sum_list (map (\<lambda>d. sum_list (map (\<lambda>kv. if fst kv = d_ftr_idn d
          then d_reach d * fillna 1 (snd kv) else 0) (ratio_map m final_df))) td)"
    unfolding joined_demo_sum
    by (rule arg_cong [where f = sum_list], rule map_cong [OF refl])
      (simp add: join_ratio_sum H1)
  also have "\<dots> = sum_list (map (\<lambda>d. sum_list (map (\<lambda>u. if ftr_idn u = d_ftr_idn d
          then d_reach d * ?R u else 0) final_df)) td)"
    by (simp add: ratio_map_def comp_def cong: if_cong)
  also have "\<dots> = sum_list (map (\<lambda>u. sum_list (map (\<lambda>d. if ftr_idn u = d_ftr_idn d
          then d_reach d * ?R u else 0) td)) final_df)"
    by (rule sum_list_swap)
  also have "\<dots> = sum_list (map (\<lambda>u. fillna 0 (snd (calculate_metrics_row m u))) final_df)"
  proof (rule arg_cong [where f = sum_list], rule map_cong [OF refl])
    fix u assume u: "u \<in> set final_df"
    have "sum_list (map (\<lambda>d. if ftr_idn u = d_ftr_idn d then d_reach d * ?R u else 0) td) =
        sum_list (map (\<lambda>d. (if d_ftr_idn d = ftr_idn u then d_reach d else 0) * ?R u) td)"
      by (rule arg_cong [where f = sum_list], rule map_cong [OF refl]) auto
    also have "\<dots> = sum_list (map (\<lambda>d. if d_ftr_idn d = ftr_idn u then d_reach d else 0) td) * ?R u"
      by (simp add: sum_list_mult_const)
    also have "\<dots> = reach u * ?R u"
      using H2 u by (simp add: sum_list_map_filter')
    finally have eq: "sum_list (map (\<lambda>d. if ftr_idn u = d_ftr_idn d
          then d_reach d * ?R u else 0) td) = ?R u * reach u"
      by (simp add: mult.commute)
    have present: "calc_ratio m u \<noteq> NaN" if pos: "0 < reach u"
    proof -
      have "sum_list (map d_reach (filter (\<lambda>d. d_ftr_idn d = ftr_idn u) td)) \<noteq> 0"
        using H2 u pos by simp
      then have "filter (\<lambda>d. d_ftr_idn d = ftr_idn u) td \<noteq> []"
        by auto
      then obtain d where d: "d \<in> set td" "d_ftr_idn d = ftr_idn u"
        by (auto simp add: filter_empty_conv)
      with H1 u show ?thesis
        using matched_ratio_present [of m final_df d u] by blast
    qed
    show "sum_list (map (\<lambda>d. if ftr_idn u = d_ftr_idn d then d_reach d * ?R u else 0) td) =
        fillna 0 (snd (calculate_metrics_row m u))"
      unfolding eq using H3 u present by (intro ratio_times_reach) auto
  qed
  finally show ?thesis
    by (simp add: nansum_def adj_reach_col_def comp_def)
qed

text \<open>
  Reconciliation when every ratio is a number. Take the displayed subset with its totals
  and the demographic rows in scope, at least one. Suppose every row the left join
  produces for them carries a ratio (the unit is in the displayed subset and its ratio is
  a number), the reach of the demographic rows of each displayed unit sums to the raw
  reach of the unit, and raw reach is not negative. Then the summaries are produced, and
  the corrected reach summed over the gender groups, and likewise over the age groups,
  equals the corrected total Reach of the displayed subset.
\<close>

theorem demographic_reconciliation:
  assumes "displayed_totals calc_mode filter_mode name factor_df final_df = Inr t"
    and "td = target_demo demo selected_month ids selected_gender selected_age_code"
    and "td \<noteq> []"
    and "\<forall>d \<in> set td. \<forall>jr \<in> set (join_ratio (ratio_map calc_mode final_df) d). snd jr \<noteq> NaN"
    and "\<forall>u \<in> set final_df.
           sum_list (map d_reach (filter (\<lambda>d. d_ftr_idn d = ftr_idn u) td)) = reach u"
    and "\<forall>u \<in> set final_df. 0 \<le> reach u"
  shows "\<exists>gender_summ age_summ.
           demographic_summary calc_mode final_df (t_correction t) (Some demo) selected_month ids
             selected_gender selected_age_code = Some (gender_summ, age_summ) \<and>
           sum_list (summ_reach gender_summ) = t_reach t \<and>
           sum_list (summ_reach age_summ) = t_reach t"
proof -
  obtain c where c: "cur_correction filter_mode name factor_df (length final_df) = Inr c"
    using cur_correction_no_error by blast
  from displayed_totals_value [OF c, of calc_mode] assms(1)
  have t: "t_reach t = nansum (adj_reach_col calc_mode final_df) * c" "t_correction t = c"
    by auto
  have total: "sum_list (map adj_demo_reach (joined_demo (ratio_map calc_mode final_df) td)) =
      nansum (adj_reach_col calc_mode final_df)"
    using assms(4-6) by (rule allocated_reach_total)
  have demo_ne: "demo \<noteq> []"
    using assms(2,3) by (auto simp add: target_demo_def)
  have "demographic_summary calc_mode final_df c (Some demo) selected_month ids
      selected_gender selected_age_code =
      Some (apply_correction c (groupby_sum (\<lambda>r. d_gender (fst r))
              (joined_demo (ratio_map calc_mode final_df) td)),
            apply_correction c (groupby_sum (\<lambda>r. d_age (fst r))
              (joined_demo (ratio_map calc_mode final_df) td)))"
    using assms(2,3) demo_ne by (simp add: demographic_summary_def Let_def)
  then show ?thesis
    using t total by (simp add: summ_reach_total)
qed

theorem demographic_reconciliation_witness:
  "\<exists>gender_summ age_summ.
     demographic_summary mode_default [scenario_unit] (9 / 10) (Some example_demo) example_month
       [[49]] gender_all 0 = Some (gender_summ, age_summ) \<and>
     sum_list (summ_reach gender_summ) = 585 / 10 \<and>
     sum_list (summ_reach age_summ) = 585 / 10"
proof -
  have c: "cur_correction filter_custom [] (Some example_table) (length [scenario_unit]) = Inr (9 / 10)"
    by (simp add: cur_correction_def filter_custom_def filter_package_def lookup_qty_def
        found_val_def values0_def example_table_def)
  have adj: "calculate_metrics_row mode_default scenario_unit = (Fl 130, Fl 65)"
    by (simp add: calculate_metrics_row_def scenario_unit_def str_defs)
  have t: "displayed_totals mode_default filter_custom [] (Some example_table) [scenario_unit] =
      Inr \<lparr>t_count = 1, t_rots = 130, t_reach = 585 / 10, t_freq = 1300 / 585,
           t_correction = 9 / 10\<rparr>"
    using displayed_totals_value [OF c, of mode_default]
    by (simp add: nansum_def adj_rots_col_def adj_reach_col_def adj)
  have td: "target_demo example_demo example_month [[49]] gender_all 0 = example_demo"
    by (simp add: target_demo_def example_demo_def)
  have ratio: "ratio_map mode_default [scenario_unit] = [([49], Fl (65 / 500))]"
    by (simp add: ratio_map_def calc_ratio_def adj) (simp add: scenario_unit_def)
  have ne: "example_demo \<noteq> []"
    by (simp add: example_demo_def)
  have h1: "\<forall>d \<in> set example_demo.
      \<forall>jr \<in> set (join_ratio (ratio_map mode_default [scenario_unit]) d). snd jr \<noteq> NaN"
    unfolding ratio by (simp add: join_ratio_def example_demo_def)
  have h2: "\<forall>u \<in> set [scenario_unit].
      sum_list (map d_reach (filter (\<lambda>d. d_ftr_idn d = ftr_idn u) example_demo)) = reach u"
    by (simp add: example_demo_def scenario_unit_def)
  have h3: "\<forall>u \<in> set [scenario_unit]. 0 \<le> reach u"
    by (simp add: scenario_unit_def)
  from demographic_reconciliation [OF t td [symmetric] ne h1 h2 h3]
  show ?thesis by simp
qed

text \<open>
  C1. The reconciliation fails on the unit of the numeric scenario with its share of time
  missing. Its two demographic rows both join to the unit, and their reach, 300 + 200,
  sums to the raw reach 500. The adjusted reach of the unit is \<open>NaN\<close>: the total skips
  it, so the corrected total Reach is 0, while the \<open>NaN\<close> ratio is filled with 1.0, so
  the corrected reach of the gender groups, and of the age groups, sums to 450.
\<close>

theorem reconciliation_fails_on_missing_share:
  "ratio_map mode_default [nan_unit] = [([49], NaN)] \<and>
   sum_list (map d_reach (filter (\<lambda>d. d_ftr_idn d = ftr_idn nan_unit) example_demo)) = reach nan_unit \<and>
   target_demo example_demo example_month [[49]] gender_all 0 = example_demo \<and>
   displayed_totals mode_default filter_custom [] (Some example_table) [nan_unit] =
     Inr \<lparr>t_count = 1, t_rots = 0, t_reach = 0, t_freq = 0, t_correction = 9 / 10\<rparr> \<and>
   demographic_summary mode_default [nan_unit] (9 / 10) (Some example_demo) example_month
       [[49]] gender_all 0 =
     Some ([([70], 400, 180), ([77], 600, 270)], [(2, 600, 270), (3, 400, 180)]) \<and>
   sum_list (summ_reach [([70 :: nat], 400, 180), ([77], 600, 270)]) = 450 \<and>
   sum_list (summ_reach [(2 :: int, 600, 270), (3, 400, 180)]) = 450"
proof -
  have adj: "calculate_metrics_row mode_default nan_unit = (NaN, NaN)"
    by (simp add: calculate_metrics_row_def nan_unit_def scenario_unit_def str_defs)
  have reach: "reach nan_unit = 500" "ftr_idn nan_unit = [49]"
    by (simp_all add: nan_unit_def scenario_unit_def)
  have ratio: "ratio_map mode_default [nan_unit] = [([49], NaN)]"
    by (simp add: ratio_map_def calc_ratio_def adj reach)
  have sum: "sum_list (map d_reach (filter (\<lambda>d. d_ftr_idn d = ftr_idn nan_unit) example_demo)) =
      reach nan_unit"
    by (simp add: reach example_demo_def)
  have td: "target_demo example_demo example_month [[49]] gender_all 0 = example_demo"
    by (simp add: target_demo_def example_demo_def)
  have c: "cur_correction filter_custom [] (Some example_table) (length [nan_unit]) = Inr (9 / 10)"
    by (simp add: cur_correction_def filter_custom_def filter_package_def lookup_qty_def
        found_val_def values0_def example_table_def)
  have t: "displayed_totals mode_default filter_custom [] (Some example_table) [nan_unit] =
      Inr \<lparr>t_count = 1, t_rots = 0, t_reach = 0, t_freq = 0, t_correction = 9 / 10\<rparr>"
    using displayed_totals_value [OF c, of mode_default]
    by (simp add: nansum_def adj_rots_col_def adj_reach_col_def adj)
  have rows: "joined_demo [([49], NaN)] example_demo = map (\<lambda>d. (d, 1)) example_demo"
    by (simp add: joined_demo_def join_ratio_def example_demo_def)
  have ne: "example_demo \<noteq> []"
    by (simp add: example_demo_def)
  have step: "demographic_summary mode_default [nan_unit] (9 / 10) (Some example_demo)
      example_month [[49]] gender_all 0 =
      Some (apply_correction (9 / 10)
              (groupby_sum (\<lambda>r. d_gender (fst r)) (map (\<lambda>d. (d, 1)) example_demo)),
            apply_correction (9 / 10)
              (groupby_sum (\<lambda>r. d_age (fst r)) (map (\<lambda>d. (d, 1)) example_demo)))"
    using ne by (simp add: demographic_summary_def td ratio rows Let_def)
  have g: "apply_correction (9 / 10)
      (groupby_sum (\<lambda>r. d_gender (fst r)) (map (\<lambda>d. (d, 1)) example_demo)) =
      [([70], 400, 180), ([77], 600, 270)]"
    by (simp add: example_demo_def groupby_sum_def apply_correction_def adj_demo_rots_def
        adj_demo_reach_def)
  have a: "apply_correction (9 / 10)
      (groupby_sum (\<lambda>r. d_age (fst r)) (map (\<lambda>d. (d, 1)) example_demo)) =
      [(2, 600, 270), (3, 400, 180)]"
    by (simp add: example_demo_def groupby_sum_def apply_correction_def adj_demo_rots_def
        adj_demo_reach_def)
  have summ: "demographic_summary mode_default [nan_unit] (9 / 10) (Some example_demo)
      example_month [[49]] gender_all 0 =
      Some ([([70], 400, 180), ([77], 600, 270)], [(2, 600, 270), (3, 400, 180)])"
    unfolding step g a ..
  show ?thesis
    using ratio sum td t summ by (simp add: summ_reach_def)
qed

end
